theory Spec2Isabelle
  imports Main "HOL-Library.Word"
begin

unbundle bit_operations_syntax

section \<open>The slot of c10/core/impl/PyObjectSlot.cpp\<close>

text \<open>
  \<^verbatim>\<open>PyObjectSlot\<close> has two atomic fields: \<^verbatim>\<open>pyobj_interpreter_\<close>, a nullable
  pointer to a \<^verbatim>\<open>PyInterpreter\<close>, and \<^verbatim>\<open>pyobj_\<close>, a \<^verbatim>\<open>uintptr_t\<close> that packs the
  address of the Python object with the ownership flag in bit 0. The pointer is an option
  of an interpreter identity, the word a 64-bit word (the masks of the source are the
  64-bit literals \<^verbatim>\<open>~0x1ULL\<close>). A name cannot end in an underscore here, so the
  fields are \<open>pyobj_interpreter_fld\<close> and \<open>pyobj_fld\<close>.
\<close>

type_synonym uintptr_t = "64 word"

datatype PyInterpreter = PyInterpreter nat

record PyObjectSlot =
  pyobj_interpreter_fld :: "PyInterpreter option"
  pyobj_fld :: uintptr_t

text \<open>
  The one call that leaves the slot: \<^verbatim>\<open>interpreter->decref(pyobj, has_pyobj_slot)\<close>, recorded
  with the interpreter it is made on and its two arguments.
\<close>

datatype interpreter_call = Decref PyInterpreter uintptr_t bool

text \<open>
  \<^verbatim>\<open>TORCH_INTERNAL_ASSERT(cond)\<close> and \<^verbatim>\<open>TORCH_CHECK(cond, msg)\<close> leave the function when
  the condition is false; the first carries the text of the condition, the second the
  message.
\<close>

datatype error = InternalAssert string | TorchCheck string

text \<open>\<^verbatim>\<open>PyObjectSlot::PyObjectSlot() : pyobj_interpreter_(nullptr), pyobj_(0) {}\<close>\<close>

definition PyObjectSlot_ctor :: PyObjectSlot where
  "PyObjectSlot_ctor = \<lparr>pyobj_interpreter_fld = None, pyobj_fld = 0\<rparr>"

text \<open>\<^verbatim>\<open>return pyobj_interpreter_.load(std::memory_order_acquire);\<close>\<close>

definition pyobj_interpreter :: "PyObjectSlot \<Rightarrow> PyInterpreter option" where
  "pyobj_interpreter s = pyobj_interpreter_fld s"

text \<open>\<^verbatim>\<open>return reinterpret_cast<PyObject*>(pyobj_.load(acquire) & ~0x1ULL);\<close>\<close>

definition unchecked_untagged_pyobj :: "PyObjectSlot \<Rightarrow> uintptr_t" where
  "unchecked_untagged_pyobj s = pyobj_fld s AND NOT 1"

text \<open>
  \<^verbatim>\<open>auto interpreter = pyobj_interpreter_.load(acquire);
  if (interpreter) { return *interpreter; }
  TORCH_CHECK(false, "cannot access PyObject for Tensor - no interpreter set");\<close>
\<close>

definition load_pyobj_interpreter :: "PyObjectSlot \<Rightarrow> error + PyInterpreter" where
  "load_pyobj_interpreter s =
     (case pyobj_interpreter_fld s of
        Some interpreter \<Rightarrow> Inr interpreter
      | None \<Rightarrow> Inl (TorchCheck ''cannot access PyObject for Tensor - no interpreter set''))"

text \<open>\<^verbatim>\<open>return (pyobj_.load(std::memory_order_acquire) & 1) != 0;\<close>\<close>

definition owns_pyobj :: "PyObjectSlot \<Rightarrow> bool" where
  "owns_pyobj s = (pyobj_fld s AND 1 \<noteq> 0)"

subsection \<open>\<^verbatim>\<open>set_owns_pyobj\<close>: the compare-and-swap loop\<close>

text \<open>
  \<^verbatim>\<open>pyobj_.compare_exchange_weak(expected, value, ...)\<close>: when the word equals \<^verbatim>\<open>expected\<close>
  and the attempt does not fail spuriously, \<^verbatim>\<open>value\<close> is stored and the call returns true;
  otherwise the word is left as it is, \<^verbatim>\<open>expected\<close> is overwritten with it and the call
  returns false. The first argument says whether this attempt fails spuriously (the weak
  form is allowed to). The result is the returned flag, the new \<^verbatim>\<open>expected\<close> and the slot.
\<close>

definition compare_exchange_weak ::
  "bool \<Rightarrow> uintptr_t \<Rightarrow> uintptr_t \<Rightarrow> PyObjectSlot \<Rightarrow> bool \<times> uintptr_t \<times> PyObjectSlot" where
  "compare_exchange_weak spurious expected desired s =
     (if pyobj_fld s = expected \<and> \<not> spurious
      then (True, expected, s\<lparr>pyobj_fld := desired\<rparr>)
      else (False, pyobj_fld s, s))"

text \<open>
  \<^verbatim>\<open>do { value = (expected & ~0x1ULL) | (b ? 1 : 0); }
  while (!pyobj_.compare_exchange_weak(expected, value, release, relaxed));\<close>

  The list gives, attempt by attempt, whether the exchange fails spuriously; once it is
  used up no further attempt does.
\<close>

function set_owns_pyobj_loop ::
  "bool list \<Rightarrow> bool \<Rightarrow> uintptr_t \<Rightarrow> PyObjectSlot \<Rightarrow> PyObjectSlot" where
  "set_owns_pyobj_loop spurious b expected s =
     (let value = (expected AND NOT 1) OR (if b then 1 else 0) in
      case compare_exchange_weak (case spurious of [] \<Rightarrow> False | f # _ \<Rightarrow> f) expected value s of
        (ok, expected', s') \<Rightarrow>
          if ok then s' else set_owns_pyobj_loop (tl spurious) b expected' s')"
  by pat_completeness auto
termination
  by (relation "measure (\<lambda>(spurious, b, expected, s).
        2 * length spurious + (if pyobj_fld s = expected then 0 else 1))")
     (auto simp: compare_exchange_weak_def split: list.splits if_splits)

text \<open>\<^verbatim>\<open>uintptr_t expected = pyobj_.load(std::memory_order_relaxed);\<close> and then the loop.\<close>

definition set_owns_pyobj :: "bool list \<Rightarrow> bool \<Rightarrow> PyObjectSlot \<Rightarrow> PyObjectSlot" where
  "set_owns_pyobj spurious b s = set_owns_pyobj_loop spurious b (pyobj_fld s) s"

subsection \<open>\<^verbatim>\<open>maybe_destroy_pyobj\<close> and the destructor\<close>

text \<open>
  \<^verbatim>\<open>if (owns_pyobj()) {
    TORCH_INTERNAL_ASSERT(pyobj_interpreter_ != nullptr);
    TORCH_INTERNAL_ASSERT(pyobj_ != 0);
    (*pyobj_interpreter_.load(acquire))->decref(_unchecked_untagged_pyobj(), true);
    pyobj_.store(0, std::memory_order_relaxed);
  }\<close>

  The result is the slot after the call with the interpreter calls made, or the assertion
  that failed (nothing is stored and nothing called before either assertion).
\<close>

definition maybe_destroy_pyobj ::
  "PyObjectSlot \<Rightarrow> error + (PyObjectSlot \<times> interpreter_call list)" where
  "maybe_destroy_pyobj s =
     (if owns_pyobj s then
        (case pyobj_interpreter_fld s of
           None \<Rightarrow> Inl (InternalAssert ''pyobj_interpreter_ != nullptr'')
         | Some interpreter \<Rightarrow>
             if pyobj_fld s = 0 then Inl (InternalAssert ''pyobj_ != 0'')
             else Inr (s\<lparr>pyobj_fld := 0\<rparr>,
                       [Decref interpreter (unchecked_untagged_pyobj s) True]))
      else Inr (s, []))"

text \<open>\<^verbatim>\<open>PyObjectSlot::~PyObjectSlot() { maybe_destroy_pyobj(); }\<close>\<close>

definition PyObjectSlot_dtor ::
  "PyObjectSlot \<Rightarrow> error + (PyObjectSlot \<times> interpreter_call list)" where
  "PyObjectSlot_dtor s = maybe_destroy_pyobj s"

subsection \<open>Sequences of calls on one slot\<close>

text \<open>
  The member functions of the unit as calls. \<open>exec_op\<close> gives the slot after a call and
  the interpreter calls it made, whether the call returned or left by an error:
  \<^verbatim>\<open>pyobj_interpreter\<close>, \<^verbatim>\<open>_unchecked_untagged_pyobj\<close>, \<^verbatim>\<open>load_pyobj_interpreter\<close> and
  \<^verbatim>\<open>owns_pyobj\<close> only load, so the slot after them is the slot before; a failed assertion
  of \<^verbatim>\<open>maybe_destroy_pyobj\<close> comes before its call and its store.
\<close>

datatype slot_op =
    Call_pyobj_interpreter
  | Call_unchecked_untagged_pyobj
  | Call_load_pyobj_interpreter
  | Call_owns_pyobj
  | Call_set_owns_pyobj "bool list" bool
  | Call_maybe_destroy_pyobj

fun exec_op :: "slot_op \<Rightarrow> PyObjectSlot \<Rightarrow> PyObjectSlot \<times> interpreter_call list" where
  "exec_op Call_pyobj_interpreter s = (s, [])"
| "exec_op Call_unchecked_untagged_pyobj s = (s, [])"
| "exec_op Call_load_pyobj_interpreter s = (s, [])"
| "exec_op Call_owns_pyobj s = (s, [])"
| "exec_op (Call_set_owns_pyobj spurious b) s = (set_owns_pyobj spurious b s, [])"
| "exec_op Call_maybe_destroy_pyobj s =
     (case maybe_destroy_pyobj s of Inl e \<Rightarrow> (s, []) | Inr r \<Rightarrow> r)"

fun run_ops :: "slot_op list \<Rightarrow> PyObjectSlot \<Rightarrow> PyObjectSlot \<times> interpreter_call list" where
  "run_ops [] s = (s, [])"
| "run_ops (c # cs) s =
     (case exec_op c s of (s', calls) \<Rightarrow>
        (case run_ops cs s' of (s'', calls') \<Rightarrow> (s'', calls @ calls')))"




section \<open>Properties\<close>

subsection \<open>The packed word\<close>

declare set_owns_pyobj_loop.simps [simp del]

lemma flag_bit: "(w AND 1 \<noteq> 0) = bit (w::uintptr_t) 0"
  by (simp add: and_one_eq bit_0 mod_2_eq_odd)

lemma bit_tagged:
  "bit ((w AND NOT 1) OR (if b then 1 else 0) :: uintptr_t) n = (if n = 0 then b else bit w n)"
  by (simp add: bit_or_iff bit_and_iff bit_not_iff bit_1_iff bit_imp_le_length del: not_one_eq)
     (auto dest: bit_imp_le_length)

lemma bit_untagged: "bit (w AND NOT 1 :: uintptr_t) n = (n \<noteq> 0 \<and> bit w n)"
  by (simp add: bit_and_iff bit_not_iff bit_1_iff del: not_one_eq) (auto dest: bit_imp_le_length)

lemma untag_tagged:
  "((w AND NOT 1) OR (if b then 1 else 0)) AND NOT 1 = w AND NOT (1::uintptr_t)"
  by (rule bit_eqI) (simp only: bit_untagged bit_tagged, simp)

lemma flag_tagged: "(((w AND NOT 1) OR (if b then 1 else 0)) AND (1::uintptr_t) \<noteq> 0) = b"
  by (simp only: flag_bit bit_tagged) simp

lemma tagged_same: "(w AND NOT 1) OR (if w AND 1 \<noteq> 0 then 1 else 0) = (w::uintptr_t)"
  by (rule bit_eqI) (simp only: flag_bit bit_tagged, simp)

lemma drop_bit_tagged:
  "drop_bit 1 ((w AND NOT 1) OR (if b then 1 else 0)) = drop_bit 1 (w::uintptr_t)"
  by (rule bit_eqI) (simp only: bit_drop_bit_eq o_apply bit_tagged, simp)

lemma flag_nonzero: "w AND 1 \<noteq> 0 \<Longrightarrow> w \<noteq> (0::uintptr_t)"
  by auto

subsection \<open>The loop of \<^verbatim>\<open>set_owns_pyobj\<close>\<close>

lemma set_owns_pyobj_loop_eq:
  "set_owns_pyobj_loop spurious b expected s =
     s\<lparr>pyobj_fld := (pyobj_fld s AND NOT 1) OR (if b then 1 else 0)\<rparr>"
proof (induction spurious b expected s rule: set_owns_pyobj_loop.induct)
  case (1 spurious b expected s)
  let ?fails = "case spurious of [] \<Rightarrow> False | f # _ \<Rightarrow> f"
  show ?case
  proof (cases "pyobj_fld s = expected \<and> \<not> ?fails")
    case True
    then show ?thesis
      by (subst set_owns_pyobj_loop.simps) (simp add: compare_exchange_weak_def)
  next
    case False
    have "set_owns_pyobj_loop spurious b expected s =
            set_owns_pyobj_loop (tl spurious) b (pyobj_fld s) s"
      using False by (subst set_owns_pyobj_loop.simps) (auto simp add: compare_exchange_weak_def)
    also have "\<dots> = s\<lparr>pyobj_fld := (pyobj_fld s AND NOT 1) OR (if b then 1 else 0)\<rparr>"
      using False by (intro "1.IH") (auto simp add: compare_exchange_weak_def)
    finally show ?thesis .
  qed
qed

lemma set_owns_pyobj_eq:
  "set_owns_pyobj spurious b s =
     s\<lparr>pyobj_fld := (pyobj_fld s AND NOT 1) OR (if b then 1 else 0)\<rparr>"
  by (simp only: set_owns_pyobj_def set_owns_pyobj_loop_eq)

subsection \<open>Calls and sequences\<close>

lemma maybe_destroy_pyobj_cases:
  "maybe_destroy_pyobj s = Inr (s, []) \<and> \<not> owns_pyobj s
   \<or> (\<exists>e. maybe_destroy_pyobj s = Inl e) \<and> owns_pyobj s
   \<or> (\<exists>i. maybe_destroy_pyobj s =
         Inr (s\<lparr>pyobj_fld := 0\<rparr>, [Decref i (unchecked_untagged_pyobj s) True])) \<and> owns_pyobj s"
  by (simp add: maybe_destroy_pyobj_def split: option.split)

lemma exec_op_interpreter_fld:
  "pyobj_interpreter_fld (fst (exec_op c s)) = pyobj_interpreter_fld s"
  using maybe_destroy_pyobj_cases [of s]
  by (cases c) (auto simp: set_owns_pyobj_eq)

lemma fst_run_ops_Cons: "fst (run_ops (c # cs) s) = fst (run_ops cs (fst (exec_op c s)))"
  by (simp split: prod.split)


lemma run_ops_interpreter_fld:
  "pyobj_interpreter_fld (fst (run_ops cs s)) = pyobj_interpreter_fld s"
proof (induction cs arbitrary: s)
  case Nil
  show ?case by simp
next
  case (Cons c cs)
  show ?case
    by (simp only: fst_run_ops_Cons Cons.IH exec_op_interpreter_fld)
qed









section \<open>The claims\<close>




text \<open>
  C2. Teardown assertion. The claim is that with the flag set and the address bits zero
  the teardown fails an assertion and does not call \<^verbatim>\<open>decref\<close>. The second assertion of
  \<^verbatim>\<open>maybe_destroy_pyobj\<close> compares the whole word \<^verbatim>\<open>pyobj_\<close> with 0, not the address
  \<^verbatim>\<open>_unchecked_untagged_pyobj()\<close>. On the slot with an interpreter and the word 1 (what
  \<^verbatim>\<open>set_owns_pyobj(true)\<close> leaves when no address was stored) the flag is set, the address
  bits are zero, and the call returns after \<^verbatim>\<open>decref(0, true)\<close>; without an interpreter the
  first assertion does fail.
\<close>

theorem maybe_destroy_pyobj_flag_without_address:
  "set_owns_pyobj [] True \<lparr>pyobj_interpreter_fld = Some (PyInterpreter 0), pyobj_fld = 0\<rparr> =
     \<lparr>pyobj_interpreter_fld = Some (PyInterpreter 0), pyobj_fld = 1\<rparr> \<and>
   owns_pyobj \<lparr>pyobj_interpreter_fld = Some (PyInterpreter 0), pyobj_fld = 1\<rparr> \<and>
   drop_bit 1 (pyobj_fld \<lparr>pyobj_interpreter_fld = Some (PyInterpreter 0), pyobj_fld = 1\<rparr>) = 0 \<and>
   maybe_destroy_pyobj \<lparr>pyobj_interpreter_fld = Some (PyInterpreter 0), pyobj_fld = 1\<rparr> =
     Inr (\<lparr>pyobj_interpreter_fld = Some (PyInterpreter 0), pyobj_fld = 0\<rparr>,
          [Decref (PyInterpreter 0) 0 True]) \<and>
   maybe_destroy_pyobj \<lparr>pyobj_interpreter_fld = None, pyobj_fld = 1\<rparr> =
     Inl (InternalAssert ''pyobj_interpreter_ != nullptr'')"
  by (simp add: set_owns_pyobj_eq maybe_destroy_pyobj_def owns_pyobj_def
        unchecked_untagged_pyobj_def drop_bit_eq_div)

text \<open>
  C3. \<^verbatim>\<open>set_owns_pyobj(b)\<close> changes the ownership bit only: whatever the word was and
  however often the weak exchange fails spuriously, after the call the bits above bit 0 are
  those of the word before and bit 0 is \<open>b\<close>; so \<^verbatim>\<open>owns_pyobj\<close> then returns \<open>b\<close>,
  \<^verbatim>\<open>_unchecked_untagged_pyobj\<close> returns the address it returned before, and the interpreter
  field is as it was.
\<close>

theorem set_owns_pyobj_only_flag:
  "drop_bit 1 (pyobj_fld (set_owns_pyobj spurious b s)) = drop_bit 1 (pyobj_fld s) \<and>
   bit (pyobj_fld (set_owns_pyobj spurious b s)) 0 = b \<and>
   owns_pyobj (set_owns_pyobj spurious b s) = b \<and>
   unchecked_untagged_pyobj (set_owns_pyobj spurious b s) = unchecked_untagged_pyobj s \<and>
   pyobj_interpreter_fld (set_owns_pyobj spurious b s) = pyobj_interpreter_fld s"
proof -
  let ?w = "(pyobj_fld s AND NOT 1) OR (if b then 1 else 0)"
  have w: "pyobj_fld (set_owns_pyobj spurious b s) = ?w"
    and i: "pyobj_interpreter_fld (set_owns_pyobj spurious b s) = pyobj_interpreter_fld s"
    by (simp_all add: set_owns_pyobj_eq)
  have "drop_bit 1 ?w = drop_bit 1 (pyobj_fld s)"
    by (rule drop_bit_tagged)
  moreover have "bit ?w 0 = b"
    by (simp only: bit_tagged) simp
  moreover have "(?w AND 1 \<noteq> 0) = b"
    by (rule flag_tagged)
  moreover have "?w AND NOT 1 = pyobj_fld s AND NOT 1"
    by (rule untag_tagged)
  ultimately show ?thesis
    by (simp only: w i owns_pyobj_def unchecked_untagged_pyobj_def simp_thms)
qed

theorem set_owns_pyobj_only_flag_witness:
  "drop_bit 1 (pyobj_fld (set_owns_pyobj [True, False] True
      \<lparr>pyobj_interpreter_fld = Some (PyInterpreter 1), pyobj_fld = 0x2000\<rparr>)) = (0x1000 :: uintptr_t) \<and>
   owns_pyobj (set_owns_pyobj [True, False] True
      \<lparr>pyobj_interpreter_fld = Some (PyInterpreter 1), pyobj_fld = 0x2000\<rparr>) \<and>
   unchecked_untagged_pyobj (set_owns_pyobj [True, False] True
      \<lparr>pyobj_interpreter_fld = Some (PyInterpreter 1), pyobj_fld = 0x2000\<rparr>) = 0x2000"
  using set_owns_pyobj_only_flag [of "[True, False]" True
      "\<lparr>pyobj_interpreter_fld = Some (PyInterpreter 1), pyobj_fld = 0x2000\<rparr>"]
  by (simp add: unchecked_untagged_pyobj_def drop_bit_eq_div)

text \<open>
  C4. With the flag set and an interpreter bound, \<^verbatim>\<open>maybe_destroy_pyobj\<close> (and so the
  destructor) returns having made exactly one call, \<^verbatim>\<open>decref\<close> on that interpreter with
  the word less its bit 0 (the value of \<^verbatim>\<open>_unchecked_untagged_pyobj\<close>) and \<open>True\<close>, and
  leaves the word 0: flag clear, address 0.
\<close>

theorem maybe_destroy_pyobj_owning:
  "owns_pyobj s \<Longrightarrow> pyobj_interpreter_fld s = Some interpreter \<Longrightarrow>
     maybe_destroy_pyobj s =
       Inr (s\<lparr>pyobj_fld := 0\<rparr>, [Decref interpreter (pyobj_fld s AND NOT 1) True]) \<and>
     PyObjectSlot_dtor s = maybe_destroy_pyobj s \<and>
     unchecked_untagged_pyobj s = pyobj_fld s AND NOT 1 \<and>
     pyobj_fld (s\<lparr>pyobj_fld := 0\<rparr>) = 0 \<and>
     \<not> owns_pyobj (s\<lparr>pyobj_fld := 0\<rparr>) \<and>
     unchecked_untagged_pyobj (s\<lparr>pyobj_fld := 0\<rparr>) = 0"
proof -
  assume o: "owns_pyobj s" and i: "pyobj_interpreter_fld s = Some interpreter"
  from o have "pyobj_fld s \<noteq> 0"
    by (simp only: owns_pyobj_def flag_nonzero not_False_eq_True)
  with o i have "maybe_destroy_pyobj s =
      Inr (s\<lparr>pyobj_fld := 0\<rparr>, [Decref interpreter (unchecked_untagged_pyobj s) True])"
    by (simp add: maybe_destroy_pyobj_def)
  then show ?thesis
    by (simp add: PyObjectSlot_dtor_def unchecked_untagged_pyobj_def owns_pyobj_def)
qed

theorem maybe_destroy_pyobj_owning_witness:
  "owns_pyobj (set_owns_pyobj [] True
      \<lparr>pyobj_interpreter_fld = Some (PyInterpreter 1), pyobj_fld = 0x1000\<rparr>) \<and>
   PyObjectSlot_dtor (set_owns_pyobj [] True
      \<lparr>pyobj_interpreter_fld = Some (PyInterpreter 1), pyobj_fld = 0x1000\<rparr>) =
     Inr (\<lparr>pyobj_interpreter_fld = Some (PyInterpreter 1), pyobj_fld = 0\<rparr>,
          [Decref (PyInterpreter 1) 0x1000 True])"
proof -
  let ?s = "set_owns_pyobj [] True
      \<lparr>pyobj_interpreter_fld = Some (PyInterpreter 1), pyobj_fld = 0x1000\<rparr>"
  have o: "owns_pyobj ?s"
    by (simp add: set_owns_pyobj_eq owns_pyobj_def)
  have i: "pyobj_interpreter_fld ?s = Some (PyInterpreter 1)"
    by (simp add: set_owns_pyobj_eq)
  from maybe_destroy_pyobj_owning [OF o i] o show ?thesis
    by (simp add: set_owns_pyobj_eq)
qed

text \<open>
  C5. \<^verbatim>\<open>load_pyobj_interpreter\<close> fails exactly when \<^verbatim>\<open>pyobj_interpreter\<close> returns null, and
  then with the \<^verbatim>\<open>TORCH_CHECK\<close> error "no interpreter set"; it returns an interpreter
  exactly when \<^verbatim>\<open>pyobj_interpreter\<close> returns that one. The slot after either call is the
  slot before, and no interpreter call is made.
\<close>

theorem load_pyobj_interpreter_fails_iff_unbound:
  "((\<exists>e. load_pyobj_interpreter s = Inl e) = (pyobj_interpreter s = None)) \<and>
   ((load_pyobj_interpreter s =
       Inl (TorchCheck ''cannot access PyObject for Tensor - no interpreter set'')) =
     (pyobj_interpreter s = None)) \<and>
   ((load_pyobj_interpreter s = Inr interpreter) = (pyobj_interpreter s = Some interpreter)) \<and>
   exec_op Call_load_pyobj_interpreter s = (s, []) \<and>
   exec_op Call_pyobj_interpreter s = (s, [])"
  by (cases "pyobj_interpreter_fld s")
     (simp_all add: load_pyobj_interpreter_def pyobj_interpreter_def)

theorem load_pyobj_interpreter_fails_iff_unbound_witness:
  "load_pyobj_interpreter PyObjectSlot_ctor =
     Inl (TorchCheck ''cannot access PyObject for Tensor - no interpreter set'') \<and>
   pyobj_interpreter PyObjectSlot_ctor = None \<and>
   pyobj_interpreter \<lparr>pyobj_interpreter_fld = Some (PyInterpreter 5), pyobj_fld = 0x1000\<rparr> =
     Some (PyInterpreter 5) \<and>
   load_pyobj_interpreter \<lparr>pyobj_interpreter_fld = Some (PyInterpreter 5), pyobj_fld = 0x1000\<rparr> =
     Inr (PyInterpreter 5)"
proof -
  have n: "pyobj_interpreter PyObjectSlot_ctor = None"
    by (simp add: pyobj_interpreter_def PyObjectSlot_ctor_def)
  have b: "pyobj_interpreter \<lparr>pyobj_interpreter_fld = Some (PyInterpreter 5), pyobj_fld = 0x1000\<rparr> =
      Some (PyInterpreter 5)"
    by (simp add: pyobj_interpreter_def)
  from load_pyobj_interpreter_fails_iff_unbound [of PyObjectSlot_ctor] n
    load_pyobj_interpreter_fails_iff_unbound
      [of "\<lparr>pyobj_interpreter_fld = Some (PyInterpreter 5), pyobj_fld = 0x1000\<rparr>" "PyInterpreter 5"] b
  show ?thesis
    by blast
qed

text \<open>
  C6. The interpreter field is not written here: after any one call of the unit, after
  any sequence of them, and after the destructor when it returns, \<^verbatim>\<open>pyobj_interpreter\<close>
  returns what it returned before.
\<close>

theorem pyobj_interpreter_unchanged:
  "pyobj_interpreter (fst (exec_op c s)) = pyobj_interpreter s \<and>
   pyobj_interpreter (fst (run_ops cs s)) = pyobj_interpreter s \<and>
   (case PyObjectSlot_dtor s of
      Inl e \<Rightarrow> True
    | Inr r \<Rightarrow> pyobj_interpreter (fst r) = pyobj_interpreter s)"
proof -
  have "pyobj_interpreter (fst r) = pyobj_interpreter s" if "maybe_destroy_pyobj s = Inr r" for r
    using that maybe_destroy_pyobj_cases [of s] by (auto simp: pyobj_interpreter_def)
  then show ?thesis
    by (simp add: pyobj_interpreter_def exec_op_interpreter_fld run_ops_interpreter_fld
          PyObjectSlot_dtor_def split: sum.split)
qed

theorem pyobj_interpreter_unchanged_witness:
  "pyobj_interpreter (fst (run_ops
      [Call_set_owns_pyobj [True] True, Call_load_pyobj_interpreter, Call_maybe_destroy_pyobj,
       Call_owns_pyobj, Call_set_owns_pyobj [] False, Call_unchecked_untagged_pyobj,
       Call_pyobj_interpreter]
      \<lparr>pyobj_interpreter_fld = Some (PyInterpreter 2), pyobj_fld = 0x3000\<rparr>)) =
     Some (PyInterpreter 2)"
  using pyobj_interpreter_unchanged [of Call_owns_pyobj
      "\<lparr>pyobj_interpreter_fld = Some (PyInterpreter 2), pyobj_fld = 0x3000\<rparr>"
      "[Call_set_owns_pyobj [True] True, Call_load_pyobj_interpreter, Call_maybe_destroy_pyobj,
        Call_owns_pyobj, Call_set_owns_pyobj [] False, Call_unchecked_untagged_pyobj,
        Call_pyobj_interpreter]"]
  by (simp add: pyobj_interpreter_def)

text \<open>
  C7. \<^verbatim>\<open>_unchecked_untagged_pyobj\<close> returns the word with bit 0 masked off: bit 0 of the
  result is clear and every other bit is the word's. It has no error result (on the fresh
  slot it returns 0), and the slot after the call is the slot before.
\<close>

theorem unchecked_untagged_pyobj_masks_flag:
  "unchecked_untagged_pyobj s = pyobj_fld s AND NOT 1 \<and>
   bit (unchecked_untagged_pyobj s) n = (n \<noteq> 0 \<and> bit (pyobj_fld s) n) \<and>
   exec_op Call_unchecked_untagged_pyobj s = (s, []) \<and>
   unchecked_untagged_pyobj PyObjectSlot_ctor = 0"
  by (simp only: unchecked_untagged_pyobj_def bit_untagged exec_op.simps PyObjectSlot_ctor_def
        PyObjectSlot.simps and.left_neutral and_zero_eq zero_and_eq simp_thms)

theorem unchecked_untagged_pyobj_masks_flag_witness:
  "unchecked_untagged_pyobj \<lparr>pyobj_interpreter_fld = None, pyobj_fld = 0x1001\<rparr> = 0x1000 \<and>
   unchecked_untagged_pyobj \<lparr>pyobj_interpreter_fld = None, pyobj_fld = 0\<rparr> = 0"
  using
    unchecked_untagged_pyobj_masks_flag [of "\<lparr>pyobj_interpreter_fld = None, pyobj_fld = 0x1001\<rparr>" 0]
    unchecked_untagged_pyobj_masks_flag [of "\<lparr>pyobj_interpreter_fld = None, pyobj_fld = 0\<rparr>" 0]
  by simp

text \<open>
  C8. The second assertion of \<^verbatim>\<open>maybe_destroy_pyobj\<close> is on the whole word. Whenever the
  flag is set the word is not 0, so that assertion never fails. On a slot with an
  interpreter bound and the word 1 the flag is set, the address bits are zero, both
  assertions pass and \<^verbatim>\<open>decref\<close> is called with the address 0.
\<close>

theorem maybe_destroy_pyobj_checks_whole_word:
  "(owns_pyobj s \<longrightarrow> pyobj_fld s \<noteq> 0) \<and>
   maybe_destroy_pyobj s \<noteq> Inl (InternalAssert ''pyobj_ != 0'') \<and>
   (pyobj_fld s = 1 \<and> pyobj_interpreter_fld s = Some interpreter \<longrightarrow>
      owns_pyobj s \<and> drop_bit 1 (pyobj_fld s) = 0 \<and> unchecked_untagged_pyobj s = 0 \<and>
      maybe_destroy_pyobj s = Inr (s\<lparr>pyobj_fld := 0\<rparr>, [Decref interpreter 0 True]))"
proof -
  have nz: "pyobj_fld s \<noteq> 0" if "owns_pyobj s"
    using that by (simp only: owns_pyobj_def flag_nonzero not_False_eq_True)
  have never: "maybe_destroy_pyobj s \<noteq> Inl (InternalAssert ''pyobj_ != 0'')"
  proof (cases "owns_pyobj s")
    case True
    with nz show ?thesis
      by (simp add: maybe_destroy_pyobj_def split: option.split)
  next
    case False
    then show ?thesis
      by (simp add: maybe_destroy_pyobj_def)
  qed
  have one: "owns_pyobj s \<and> drop_bit 1 (pyobj_fld s) = 0 \<and> unchecked_untagged_pyobj s = 0 \<and>
      maybe_destroy_pyobj s = Inr (s\<lparr>pyobj_fld := 0\<rparr>, [Decref interpreter 0 True])"
    if "pyobj_fld s = 1 \<and> pyobj_interpreter_fld s = Some interpreter"
    using that
    by (simp add: maybe_destroy_pyobj_def owns_pyobj_def unchecked_untagged_pyobj_def
          drop_bit_eq_div)
  from nz never one show ?thesis
    by blast
qed

theorem maybe_destroy_pyobj_checks_whole_word_witness:
  "owns_pyobj \<lparr>pyobj_interpreter_fld = Some (PyInterpreter 3), pyobj_fld = 1\<rparr> \<and>
   pyobj_fld \<lparr>pyobj_interpreter_fld = Some (PyInterpreter 3), pyobj_fld = 1\<rparr> \<noteq> 0 \<and>
   unchecked_untagged_pyobj \<lparr>pyobj_interpreter_fld = Some (PyInterpreter 3), pyobj_fld = 1\<rparr> = 0 \<and>
   maybe_destroy_pyobj \<lparr>pyobj_interpreter_fld = Some (PyInterpreter 3), pyobj_fld = 1\<rparr> =
     Inr (\<lparr>pyobj_interpreter_fld = Some (PyInterpreter 3), pyobj_fld = 0\<rparr>,
          [Decref (PyInterpreter 3) 0 True])"
proof -
  let ?s = "\<lparr>pyobj_interpreter_fld = Some (PyInterpreter 3), pyobj_fld = 1\<rparr>"
  have h: "pyobj_fld ?s = 1 \<and> pyobj_interpreter_fld ?s = Some (PyInterpreter 3)"
    by simp
  have u: "?s\<lparr>pyobj_fld := 0\<rparr> = \<lparr>pyobj_interpreter_fld = Some (PyInterpreter 3), pyobj_fld = 0\<rparr>"
    by simp
  from maybe_destroy_pyobj_checks_whole_word [of ?s "PyInterpreter 3"] h
  show ?thesis
    unfolding u by blast
qed

text \<open>
  C9. \<^verbatim>\<open>set_owns_pyobj\<close> is idempotent: a second call with the same \<open>b\<close> leaves the slot
  of the first, whatever the spurious failures of either; and when the flag already is
  \<open>b\<close> the call leaves the slot as it is.
\<close>

theorem set_owns_pyobj_idempotent:
  "set_owns_pyobj spurious' b (set_owns_pyobj spurious b s) = set_owns_pyobj spurious b s \<and>
   (owns_pyobj s = b \<longrightarrow> set_owns_pyobj spurious b s = s)"
proof -
  let ?w = "(pyobj_fld s AND NOT 1) OR (if b then 1 else 0)"
  have "(?w AND NOT 1) OR (if b then 1 else 0) = ?w"
    by (simp only: untag_tagged)
  then have twice: "set_owns_pyobj spurious' b (set_owns_pyobj spurious b s) =
      set_owns_pyobj spurious b s"
    by (simp add: set_owns_pyobj_eq [of spurious' b] set_owns_pyobj_eq [of spurious b s])
  have same: "set_owns_pyobj spurious b s = s" if "owns_pyobj s = b"
  proof -
    from that have "?w = (pyobj_fld s AND NOT 1) OR (if pyobj_fld s AND 1 \<noteq> 0 then 1 else 0)"
      by (simp only: owns_pyobj_def)
    then have "?w = pyobj_fld s"
      by (simp only: tagged_same)
    then show ?thesis
      by (simp add: set_owns_pyobj_eq [of spurious b s])
  qed
  from twice same show ?thesis
    by blast
qed

theorem set_owns_pyobj_idempotent_witness:
  "owns_pyobj \<lparr>pyobj_interpreter_fld = None, pyobj_fld = 0x4001\<rparr> = True \<and>
   set_owns_pyobj [True, True] True \<lparr>pyobj_interpreter_fld = None, pyobj_fld = 0x4001\<rparr> =
     \<lparr>pyobj_interpreter_fld = None, pyobj_fld = 0x4001\<rparr> \<and>
   set_owns_pyobj [] False (set_owns_pyobj [True] False
       \<lparr>pyobj_interpreter_fld = None, pyobj_fld = 0x4001\<rparr>) =
     set_owns_pyobj [True] False \<lparr>pyobj_interpreter_fld = None, pyobj_fld = 0x4001\<rparr>"
proof -
  let ?s = "\<lparr>pyobj_interpreter_fld = None, pyobj_fld = 0x4001\<rparr>"
  have o: "owns_pyobj ?s = True"
    by (simp add: owns_pyobj_def)
  from set_owns_pyobj_idempotent [of "[]" True "[True, True]" ?s] o
    set_owns_pyobj_idempotent [of "[]" False "[True]" ?s]
  show ?thesis
    by blast
qed

text \<open>
  C10. In every slot the word is the value of \<^verbatim>\<open>_unchecked_untagged_pyobj\<close> or-ed with the
  bit \<^verbatim>\<open>owns_pyobj\<close> reports, and bit 0 of that value is clear; the same holds of the slot
  after any call of the unit and after any sequence of them.
\<close>

theorem pyobj_word_decomposition:
  "pyobj_fld s = unchecked_untagged_pyobj s OR (if owns_pyobj s then 1 else 0) \<and>
   \<not> bit (unchecked_untagged_pyobj s) 0 \<and>
   pyobj_fld (fst (exec_op c s)) =
     unchecked_untagged_pyobj (fst (exec_op c s)) OR (if owns_pyobj (fst (exec_op c s)) then 1 else 0) \<and>
   \<not> bit (unchecked_untagged_pyobj (fst (exec_op c s))) 0 \<and>
   pyobj_fld (fst (run_ops cs s)) =
     unchecked_untagged_pyobj (fst (run_ops cs s)) OR (if owns_pyobj (fst (run_ops cs s)) then 1 else 0) \<and>
   \<not> bit (unchecked_untagged_pyobj (fst (run_ops cs s))) 0"
proof -
  have d: "pyobj_fld t = unchecked_untagged_pyobj t OR (if owns_pyobj t then 1 else 0)" for t
    by (simp only: unchecked_untagged_pyobj_def owns_pyobj_def tagged_same)
  have z: "\<not> bit (unchecked_untagged_pyobj t) 0" for t
    by (simp only: unchecked_untagged_pyobj_def bit_untagged) simp
  from d [of s] d [of "fst (exec_op c s)"] d [of "fst (run_ops cs s)"]
    z [of s] z [of "fst (exec_op c s)"] z [of "fst (run_ops cs s)"]
  show ?thesis
    by blast
qed

theorem pyobj_word_decomposition_witness:
  "pyobj_fld \<lparr>pyobj_interpreter_fld = None, pyobj_fld = 0x5001\<rparr> =
     unchecked_untagged_pyobj \<lparr>pyobj_interpreter_fld = None, pyobj_fld = 0x5001\<rparr> OR
       (if owns_pyobj \<lparr>pyobj_interpreter_fld = None, pyobj_fld = 0x5001\<rparr> then 1 else 0) \<and>
   unchecked_untagged_pyobj \<lparr>pyobj_interpreter_fld = None, pyobj_fld = 0x5001\<rparr> = 0x5000 \<and>
   owns_pyobj \<lparr>pyobj_interpreter_fld = None, pyobj_fld = 0x5001\<rparr>"
proof -
  let ?s = "\<lparr>pyobj_interpreter_fld = None, pyobj_fld = 0x5001\<rparr>"
  have u: "unchecked_untagged_pyobj ?s = 0x5000"
    by (simp add: unchecked_untagged_pyobj_def)
  have o: "owns_pyobj ?s"
    by (simp add: owns_pyobj_def)
  from pyobj_word_decomposition [of ?s Call_owns_pyobj "[]"] u o show ?thesis
    by blast
qed

end
